theory Spec2Isabelle
  imports Complex_Main
begin

section \<open>ACC server status monitor: values, configuration and analysis\<close>

text \<open>
  The monitor (\<^verbatim>\<open>acc_monitor.py\<close>, class \<^verbatim>\<open>ACCStatusMonitor\<close>) works on the
  dictionary that \<^verbatim>\<open>response.json()\<close> returns. Python is dynamically typed, so a
  field of that dictionary is any JSON value. Numbers are kept exact: a finite float is
  the rational number it denotes, and Python compares a float with an int by value.
  The non-finite floats are not represented.
\<close>

datatype json =
    JNull
  | JBool bool
  | JInt int
  | JFloat rat
  | JStr string
  | JArr "json list"
  | JObj "(string \<times> json) list"

type_synonym pydict = "string \<rightharpoonup> json"

datatype error =
    TypeError
  | KeyError string
  | ValueError
  | UnboundLocalError

text \<open>Sequencing of computations that may raise: the first exception is the result.\<close>

definition and_then :: "error + 'a \<Rightarrow> ('a \<Rightarrow> error + 'b) \<Rightarrow> error + 'b" where
  "and_then m f = (case m of Inl e \<Rightarrow> Inl e | Inr v \<Rightarrow> f v)"

text \<open>\<^verbatim>\<open>d.get(k, default)\<close> and \<^verbatim>\<open>d[k]\<close>.\<close>

definition dict_get :: "pydict \<Rightarrow> string \<Rightarrow> json \<Rightarrow> json" where
  "dict_get d k dflt = (case d k of None \<Rightarrow> dflt | Some v \<Rightarrow> v)"

definition item :: "string \<Rightarrow> 'a option \<Rightarrow> error + 'a" where
  "item k field = (case field of None \<Rightarrow> Inl (KeyError k) | Some v \<Rightarrow> Inr v)"

text \<open>Python truth value of a JSON value.\<close>

fun truthy :: "json \<Rightarrow> bool" where
  "truthy JNull = False"
| "truthy (JBool b) = b"
| "truthy (JInt n) = (n \<noteq> 0)"
| "truthy (JFloat r) = (r \<noteq> 0)"
| "truthy (JStr s) = (s \<noteq> [])"
| "truthy (JArr xs) = (xs \<noteq> [])"
| "truthy (JObj kvs) = (kvs \<noteq> [])"

text \<open>
  The numeric value of a value that Python treats as a number (\<^verbatim>\<open>bool\<close> is a subclass
  of \<^verbatim>\<open>int\<close>). Ordering a non-number against an int raises \<^verbatim>\<open>TypeError\<close>;
  \<^verbatim>\<open>==\<close> against an int is false for a non-number.
\<close>

fun py_num :: "json \<Rightarrow> rat option" where
  "py_num (JInt n) = Some (of_int n)"
| "py_num (JFloat r) = Some r"
| "py_num (JBool b) = Some (if b then 1 else 0)"
| "py_num JNull = None"
| "py_num (JStr s) = None"
| "py_num (JArr xs) = None"
| "py_num (JObj kvs) = None"

definition py_eq :: "json \<Rightarrow> int \<Rightarrow> bool" where
  "py_eq v n = (py_num v = Some (of_int n))"

definition py_gt :: "json \<Rightarrow> int \<Rightarrow> error + bool" where
  "py_gt v n = (case py_num v of None \<Rightarrow> Inl TypeError | Some r \<Rightarrow> Inr (of_int n < r))"

definition py_lt :: "json \<Rightarrow> int \<Rightarrow> error + bool" where
  "py_lt v n = (case py_num v of None \<Rightarrow> Inl TypeError | Some r \<Rightarrow> Inr (r < of_int n))"

definition py_le :: "json \<Rightarrow> int \<Rightarrow> error + bool" where
  "py_le v n = (case py_num v of None \<Rightarrow> Inl TypeError | Some r \<Rightarrow> Inr (r \<le> of_int n))"

definition py_ge :: "json \<Rightarrow> int \<Rightarrow> error + bool" where
  "py_ge v n = (case py_num v of None \<Rightarrow> Inl TypeError | Some r \<Rightarrow> Inr (of_int n \<le> r))"

subsection \<open>Configuration\<close>

text \<open>
  \<^verbatim>\<open>self.config\<close>, set in \<^verbatim>\<open>__init__\<close>. The webhook comes from the environment
  variable \<^verbatim>\<open>DISCORD_WEBHOOK_URL\<close>.
\<close>

record config =
  acc_api_url :: string
  max_acceptable_ping :: int
  min_servers_expected :: int
  max_data_age_minutes :: int
  warning_ping :: int
  warning_servers :: int
  timeout :: int
  user_agent :: string
  discord_webhook :: "string option"
  api_update_interval :: int
  api_delay_offset :: int

definition init_config :: "string option \<Rightarrow> config" where
  "init_config webhook_env =
     \<lparr> acc_api_url = ''https://acc-status.jonatan.net/api/v2/acc/status'',
       max_acceptable_ping = 150,
       min_servers_expected = 1000,
       max_data_age_minutes = 15,
       warning_ping = 100,
       warning_servers = 1200,
       timeout = 15,
       user_agent = ''ACC-Monitor/1.0 (GitHub Actions)'',
       discord_webhook = webhook_env,
       api_update_interval = 5,
       api_delay_offset = 30 \<rparr>"

subsection \<open>The clock\<close>

text \<open>
  \<^verbatim>\<open>analyze_acc_status\<close> reads the wall clock twice: \<^verbatim>\<open>datetime.now()\<close> for the
  printed timestamp, and \<^verbatim>\<open>datetime.now(timezone.utc)\<close> for the age of the data.
  The clock is an explicit argument here. \<open>local_now\<close> is the formatted local time.
  \<open>age_minutes s\<close> is the value of
  \<^verbatim>\<open>round((now_utc - datetime.fromisoformat(s.replace('Z', '+00:00'))).total_seconds() / 60, 1)\<close>
  at that instant, and \<open>None\<close> when parsing \<open>s\<close> or the subtraction raises
  (a string that is no ISO-8601 date, or one without a UTC offset). The library's date
  parser and the float arithmetic stay inside this function of the clock.
\<close>

record clock =
  local_now :: string
  age_minutes :: "string \<Rightarrow> rat option"

subsection \<open>The analysis dictionary\<close>

text \<open>
  The result of \<^verbatim>\<open>analyze_acc_status\<close> is a dictionary with one of two sets of keys.
  A field is \<open>None\<close> when the key is absent, and \<open>Some JNull\<close> when the key holds
  Python's \<^verbatim>\<open>None\<close>. An issue message is an f-string; it is kept as its template
  (the constructor) with the interpolated values.
\<close>

datatype issue =
    Servers_offline
  | Servers_status_unknown
  | Ping_unavailable
  | Ping_high json int
  | Ping_warning json int
  | Servers_count_low json int
  | Servers_count_decreasing json
  | Data_too_old rat int

record analysis =
  status :: "string option"
  reason :: "json option"
  timestamp :: string
  source :: string
  api_status :: "json option"
  ping_ms :: "json option"
  servers_count :: "json option"
  players_count :: "json option"
  data_age_minutes :: "rat option"
  down_since :: "json option"
  api_response_time :: "json option"
  issues :: "issue list option"

subsection \<open>\<^verbatim>\<open>determine_overall_status\<close>\<close>

definition determine_overall_status :: "config \<Rightarrow> analysis \<Rightarrow> error + string" where
  "determine_overall_status c a =
     and_then (item ''api_status'' (api_status a)) (\<lambda>api_status.
     and_then (item ''ping_ms'' (ping_ms a)) (\<lambda>ping.
     and_then (item ''servers_count'' (servers_count a)) (\<lambda>servers.
     and_then (item ''data_age_minutes'' (data_age_minutes a)) (\<lambda>data_age.
       if py_eq api_status 0 then Inr ''DOWN''
       else if py_eq api_status (- 1) then Inr ''UNKNOWN''
       else if \<not> py_eq api_status 1 then Inr ''API_ERROR''
       else
         and_then
           (if ping = JNull then Inr [''ping_null'']
            else and_then (py_gt ping (max_acceptable_ping c))
                   (\<lambda>high. Inr (if high then [''ping_high''] else [])))
           (\<lambda>issues1.
         and_then (py_lt servers (min_servers_expected c)) (\<lambda>low.
           let issues2 = issues1 @ (if low then [''servers_low''] else []);
               issues3 = issues2 @
                 (if of_int (max_data_age_minutes c) < data_age then [''data_old''] else [])
           in Inr (if issues3 = [] then ''UP''
                   else if length issues3 = 1
                           \<and> issues3 ! 0 \<notin> set [''ping_null'', ''data_old'']
                        then ''DEGRADED''
                        else ''DOWN'')))))))"

subsection \<open>\<^verbatim>\<open>identify_issues\<close>\<close>

definition identify_issues :: "config \<Rightarrow> analysis \<Rightarrow> error + issue list" where
  "identify_issues c a =
     and_then (item ''api_status'' (api_status a)) (\<lambda>api_status.
     and_then (item ''ping_ms'' (ping_ms a)) (\<lambda>ping.
     and_then (item ''servers_count'' (servers_count a)) (\<lambda>servers.
     and_then (item ''data_age_minutes'' (data_age_minutes a)) (\<lambda>data_age.
       let issues1 =
             (if py_eq api_status 0 then [Servers_offline]
              else if py_eq api_status (- 1) then [Servers_status_unknown]
              else [])
       in
       and_then
         (if ping = JNull \<and> py_eq api_status 1 then Inr [Ping_unavailable]
          else if \<not> truthy ping then Inr []
          else and_then (py_gt ping (max_acceptable_ping c)) (\<lambda>high.
                 if high then Inr [Ping_high ping (max_acceptable_ping c)]
                 else and_then (py_gt ping (warning_ping c)) (\<lambda>warn.
                        Inr (if warn then [Ping_warning ping (warning_ping c)] else []))))
         (\<lambda>ping_issues.
       and_then (py_lt servers (min_servers_expected c)) (\<lambda>low.
       and_then
         (if low then Inr [Servers_count_low servers (min_servers_expected c)]
          else and_then (py_lt servers (warning_servers c)) (\<lambda>decreasing.
                 Inr (if decreasing then [Servers_count_decreasing servers] else [])))
         (\<lambda>server_issues.
       Inr (issues1 @ ping_issues @ server_issues @
            (if of_int (max_data_age_minutes c) < data_age
             then [Data_too_old data_age (max_data_age_minutes c)] else [])))))))))"

subsection \<open>\<^verbatim>\<open>analyze_acc_status\<close>\<close>

text \<open>
  The age of the data, as the source computes it before building the dictionary:
  \<open>0\<close> when \<^verbatim>\<open>date_str\<close> is falsy (absent, \<^verbatim>\<open>None\<close>, empty, zero), \<open>999\<close> when anything
  in the \<^verbatim>\<open>try\<close> block raises (a value that is no string has no \<^verbatim>\<open>replace\<close>), the
  rounded age otherwise. \<^verbatim>\<open>round(0, 1)\<close> and \<^verbatim>\<open>round(999, 1)\<close> are \<open>0\<close> and \<open>999\<close>.
\<close>

definition data_age_of :: "clock \<Rightarrow> json \<Rightarrow> rat" where
  "data_age_of clk date_str =
     (if truthy date_str then
        (case date_str of
           JStr s \<Rightarrow> (case age_minutes clk s of Some m \<Rightarrow> m | None \<Rightarrow> 999)
         | _ \<Rightarrow> 999)
      else 0)"

definition analyze_acc_status :: "config \<Rightarrow> clock \<Rightarrow> pydict \<Rightarrow> error + analysis" where
  "analyze_acc_status c clk api_data =
     (if \<not> truthy (dict_get api_data ''success'' (JBool False)) then
        Inr \<lparr> status = Some ''API_ERROR'',
              reason = Some (dict_get api_data ''error'' (JStr ''API error'')),
              timestamp = local_now clk,
              source = ''api_error'',
              api_status = None, ping_ms = None, servers_count = None,
              players_count = None, data_age_minutes = None, down_since = None,
              api_response_time = None, issues = None \<rparr>
      else
        let a = \<lparr> status = None,
                  reason = None,
                  timestamp = local_now clk,
                  source = ''acc_api'',
                  api_status = Some (dict_get api_data ''status'' JNull),
                  ping_ms = Some (dict_get api_data ''ping'' JNull),
                  servers_count = Some (dict_get api_data ''servers'' (JInt 0)),
                  players_count = Some (dict_get api_data ''players'' (JInt 0)),
                  data_age_minutes =
                    Some (data_age_of clk (dict_get api_data ''date'' JNull)),
                  down_since = Some (dict_get api_data ''down_since'' JNull),
                  api_response_time = Some (dict_get api_data ''_request_time'' (JInt 0)),
                  issues = None \<rparr>
        in and_then (determine_overall_status c a) (\<lambda>st.
           let a1 = a\<lparr>status := Some st\<rparr>
           in and_then (identify_issues c a1) (\<lambda>iss.
              Inr (a1\<lparr>issues := Some iss\<rparr>))))"

section \<open>Fetching\<close>

text \<open>\<^verbatim>\<open>str\<close> of an int, as the f-strings print it.\<close>

fun str_nat :: "nat \<Rightarrow> string" where
  "str_nat n =
     (if n < 10 then [''0123456789'' ! n]
      else str_nat (n div 10) @ [''0123456789'' ! (n mod 10)])"

declare str_nat.simps [simp del]

definition str_int :: "int \<Rightarrow> string" where
  "str_int i = (if i < 0 then CHR ''-'' # str_nat (nat (- i)) else str_nat (nat i))"

text \<open>
  What \<^verbatim>\<open>requests.get\<close> does: it raises, or it returns a response with a status
  code, a reason phrase and a body, which \<^verbatim>\<open>response.json()\<close> parses or rejects.
\<close>

datatype body = Invalid_json | Parsed json

datatype get_outcome =
    Timeout
  | ConnectionError
  | Raised string
  | Response int string body

text \<open>What \<^verbatim>\<open>requests.post\<close> to the webhook does.\<close>

datatype post_outcome = Post_raised | Post_response int

text \<open>
  A file: absent, present and unreadable (reading or decoding it raises), or present
  with its contents. A write succeeds, or raises and leaves the file as given.
\<close>

datatype 'a disk_file = Missing | Unreadable | Contents 'a

datatype 'a write_outcome = Written | Write_raised "'a disk_file"

text \<open>
  Everything outside the process that one run reads: the network, the clock, the
  environment variable \<^verbatim>\<open>FORCE_NOTIFICATION\<close> and the two files.
\<close>

record world =
  http_get :: get_outcome
  request_time :: rat
  now_iso :: string
  wall_clock :: clock
  force_notification :: "string option"
  http_post :: post_outcome
  status_file :: "string disk_file"
  status_write :: "string write_outcome"
  metrics_file :: "analysis list disk_file"
  metrics_write :: "analysis list write_outcome"

definition create_api_error :: "string \<Rightarrow> string \<Rightarrow> pydict" where
  "create_api_error why now =
     [''success'' \<mapsto> JBool False,
      ''error'' \<mapsto> JStr why,
      ''timestamp'' \<mapsto> JStr now,
      ''status'' \<mapsto> JNull,
      ''ping'' \<mapsto> JNull,
      ''servers'' \<mapsto> JNull,
      ''players'' \<mapsto> JNull]"

text \<open>
  \<^verbatim>\<open>api_data['_request_time'] = ...\<close> on a parsed body that is no dictionary raises
  \<^verbatim>\<open>TypeError\<close>; this is the interpreter's message for it.
\<close>

fun item_assignment_error :: "json \<Rightarrow> string" where
  "item_assignment_error (JArr xs) = ''list indices must be integers or slices, not str''"
| "item_assignment_error JNull = [CHR 0x27] @ ''NoneType'' @ [CHR 0x27] @ '' object does not support item assignment''"
| "item_assignment_error (JBool b) = [CHR 0x27] @ ''bool'' @ [CHR 0x27] @ '' object does not support item assignment''"
| "item_assignment_error (JInt n) = [CHR 0x27] @ ''int'' @ [CHR 0x27] @ '' object does not support item assignment''"
| "item_assignment_error (JFloat r) = [CHR 0x27] @ ''float'' @ [CHR 0x27] @ '' object does not support item assignment''"
| "item_assignment_error (JStr s) = [CHR 0x27] @ ''str'' @ [CHR 0x27] @ '' object does not support item assignment''"
| "item_assignment_error (JObj kvs) = []"

definition fetch_api_data :: "world \<Rightarrow> pydict" where
  "fetch_api_data w =
     (case http_get w of
        Timeout \<Rightarrow> create_api_error ''API timeout'' (now_iso w)
      | ConnectionError \<Rightarrow> create_api_error ''API connection error'' (now_iso w)
      | Raised msg \<Rightarrow> create_api_error (''Unexpected error: '' @ msg) (now_iso w)
      | Response code why b \<Rightarrow>
          if code \<noteq> 200 then
            [''success'' \<mapsto> JBool False,
             ''error'' \<mapsto> JStr (''API HTTP '' @ str_int code @ '' - '' @ why),
             ''timestamp'' \<mapsto> JStr (now_iso w)]
          else
            (case b of
               Invalid_json \<Rightarrow>
                 create_api_error ''API response is not valid JSON'' (now_iso w)
             | Parsed (JObj kvs) \<Rightarrow>
                 (map_of (rev kvs))
                   (''_request_time'' \<mapsto> JFloat (request_time w),
                    ''_fetched_at'' \<mapsto> JStr (now_iso w),
                    ''success'' \<mapsto> JBool True)
             | Parsed v \<Rightarrow>
                 create_api_error (''Unexpected error: '' @ item_assignment_error v)
                   (now_iso w)))"

section \<open>Notification\<close>

text \<open>
  Formatting with \<^verbatim>\<open>:,\<close> or \<^verbatim>\<open>:.2f\<close> works on numbers; on a string it raises
  \<^verbatim>\<open>ValueError\<close>, on any other value \<^verbatim>\<open>TypeError\<close>.
\<close>

fun format_number :: "json \<Rightarrow> error + unit" where
  "format_number (JInt n) = Inr ()"
| "format_number (JFloat r) = Inr ()"
| "format_number (JBool b) = Inr ()"
| "format_number (JStr s) = Inl ValueError"
| "format_number JNull = Inl TypeError"
| "format_number (JArr xs) = Inl TypeError"
| "format_number (JObj kvs) = Inl TypeError"

text \<open>
  Of the message that \<^verbatim>\<open>create_discord_embed\<close> builds, the title (without its
  pictograms) and the colour are kept, and every place where building it raises.
  (The nested quotes in the f-string of the field \<^verbatim>\<open>API Status\<close> need Python 3.12.)
\<close>

record embed =
  title :: string
  color :: int

definition create_discord_embed :: "config \<Rightarrow> analysis \<Rightarrow> error + embed" where
  "create_discord_embed c a =
     and_then (item ''status'' (status a)) (\<lambda>st.
     and_then (item ''api_status'' (api_status a)) (\<lambda>api_status.
     and_then
       (if st = ''UP'' then Inr \<lparr> title = ''ACC SERVERS ONLINE'', color = 0x28A745 \<rparr>
        else if st = ''DEGRADED'' then Inr \<lparr> title = ''ACC SERVERS DEGRADED'', color = 0xFFC107 \<rparr>
        else if st = ''DOWN'' then Inr \<lparr> title = ''ACC SERVERS OFFLINE'', color = 0xDC3545 \<rparr>
        else if st = ''UNKNOWN'' then Inr \<lparr> title = ''ACC SERVERS UNKNOWN'', color = 0x6C757D \<rparr>
        else if st = ''API_ERROR'' then Inr \<lparr> title = ''ACC API ERROR'', color = 0x6610F2 \<rparr>
        else Inl UnboundLocalError)
       (\<lambda>e.
     and_then (item ''ping_ms'' (ping_ms a)) (\<lambda>ping.
     and_then
       (if ping = JNull then Inr ()
        else and_then (py_le ping (warning_ping c)) (\<lambda>green.
               if green then Inr ()
               else and_then (py_le ping (max_acceptable_ping c)) (\<lambda>yellow. Inr ())))
       (\<lambda>u1.
     and_then (item ''servers_count'' (servers_count a)) (\<lambda>servers.
     and_then
       (if servers = JNull then Inr ()
        else and_then (py_ge servers (warning_servers c)) (\<lambda>green.
               and_then
                 (if green then Inr True else py_ge servers (min_servers_expected c))
                 (\<lambda>yellow. format_number servers)))
       (\<lambda>u2.
     and_then (item ''players_count'' (players_count a)) (\<lambda>players.
     and_then (if players = JNull then Inr () else format_number players) (\<lambda>u3.
     and_then
       (case api_response_time a of None \<Rightarrow> Inr () | Some t \<Rightarrow> format_number t)
       (\<lambda>u4. Inr e))))))))))"

definition send_discord_notification :: "config \<Rightarrow> world \<Rightarrow> analysis \<Rightarrow> bool" where
  "send_discord_notification c w a =
     (case discord_webhook c of
        None \<Rightarrow> False
      | Some url \<Rightarrow>
          if url = [] then False
          else
            (case create_discord_embed c a of
               Inl e \<Rightarrow> False
             | Inr payload \<Rightarrow>
                 (case http_post w of
                    Post_raised \<Rightarrow> False
                  | Post_response code \<Rightarrow> code = 204)))"

section \<open>Persisted state\<close>

text \<open>
  \<^verbatim>\<open>history[-200:]\<close> keeps the last 200 entries. A file that holds no list makes
  \<^verbatim>\<open>json.load\<close> or \<^verbatim>\<open>append\<close> raise; the exception is logged and nothing is written.
\<close>

definition save_metrics_history ::
    "'a \<Rightarrow> 'a list disk_file \<Rightarrow> 'a list write_outcome \<Rightarrow> 'a list disk_file" where
  "save_metrics_history a f wr =
     (case f of
        Unreadable \<Rightarrow> Unreadable
      | _ \<Rightarrow>
          let history = (case f of Contents h \<Rightarrow> h | _ \<Rightarrow> []);
              history1 = history @ [a];
              history2 = drop (length history1 - 200) history1
          in (case wr of Written \<Rightarrow> Contents history2 | Write_raised left \<Rightarrow> left))"

text \<open>\<^verbatim>\<open>str.strip\<close> and \<^verbatim>\<open>str.lower\<close>, on ASCII.\<close>

definition is_space :: "char \<Rightarrow> bool" where
  "is_space ch = (let n = (of_char ch :: nat) in (9 \<le> n \<and> n \<le> 13) \<or> (28 \<le> n \<and> n \<le> 32))"

definition strip :: "string \<Rightarrow> string" where
  "strip s = rev (dropWhile is_space (rev (dropWhile is_space s)))"

definition lower_char :: "char \<Rightarrow> char" where
  "lower_char ch =
     (let n = (of_char ch :: nat) in if 65 \<le> n \<and> n \<le> 90 then char_of (n + 32) else ch)"

definition lower :: "string \<Rightarrow> string" where
  "lower s = map lower_char s"

definition get_last_status :: "string disk_file \<Rightarrow> string option" where
  "get_last_status f = (case f of Contents s \<Rightarrow> Some (strip s) | _ \<Rightarrow> None)"

definition save_status :: "string \<Rightarrow> string disk_file \<Rightarrow> string write_outcome \<Rightarrow> string disk_file" where
  "save_status st f wr = (case wr of Written \<Rightarrow> Contents st | Write_raised left \<Rightarrow> left)"

section \<open>\<^verbatim>\<open>run\<close>\<close>

text \<open>
  \<^verbatim>\<open>significant_change\<close> is written with a comma before the force flag, so it is a
  pair: the disjunction of the three tests, and the flag. \<^verbatim>\<open>if significant_change:\<close>
  takes the truth value of that tuple, which is whether its length is not zero.
\<close>

definition significant_change :: "string option \<Rightarrow> string \<Rightarrow> string option \<Rightarrow> bool \<times> bool" where
  "significant_change last_status current_status force_env =
     (last_status = None \<or> last_status \<noteq> Some current_status
        \<or> current_status \<in> set [''DOWN'', ''API_ERROR''],
      lower (case force_env of None \<Rightarrow> ''false'' | Some s \<Rightarrow> s) = ''true'')"

definition tuple_len :: "'a \<times> 'b \<Rightarrow> nat" where
  "tuple_len t = 2"

definition tuple_truthy :: "'a \<times> 'b \<Rightarrow> bool" where
  "tuple_truthy t = (tuple_len t \<noteq> 0)"

text \<open>The lines of \<^verbatim>\<open>run\<close> that print the metrics; formatting can raise.\<close>

definition log_metrics :: "analysis \<Rightarrow> error + unit" where
  "log_metrics a =
     and_then
       (case servers_count a of
          None \<Rightarrow> Inr () | Some v \<Rightarrow> if v = JNull then Inr () else format_number v)
       (\<lambda>u. case players_count a of
          None \<Rightarrow> Inr () | Some v \<Rightarrow> if v = JNull then Inr () else format_number v)"

text \<open>
  What one run leaves behind: the value it returns or the exception it raises, whether
  it called \<^verbatim>\<open>send_discord_notification\<close> and what that returned, and the two files.
\<close>

record outcome =
  returned :: "error + analysis"
  notified :: bool
  delivered :: bool
  status_file_after :: "string disk_file"
  metrics_file_after :: "analysis list disk_file"

definition aborted :: "error \<Rightarrow> world \<Rightarrow> outcome" where
  "aborted e w =
     \<lparr> returned = Inl e, notified = False, delivered = False,
       status_file_after = status_file w, metrics_file_after = metrics_file w \<rparr>"

definition run :: "config \<Rightarrow> world \<Rightarrow> outcome" where
  "run c w =
     (let api_data = fetch_api_data w in
      case analyze_acc_status c (wall_clock w) api_data of
        Inl e \<Rightarrow> aborted e w
      | Inr a \<Rightarrow>
          let last_status = get_last_status (status_file w) in
          (case item ''status'' (status a) of
             Inl e \<Rightarrow> aborted e w
           | Inr current_status \<Rightarrow>
               (case log_metrics a of
                  Inl e \<Rightarrow> aborted e w
                | Inr u \<Rightarrow>
                    if tuple_truthy
                         (significant_change last_status current_status (force_notification w))
                    then
                      let sent = send_discord_notification c w a in
                      \<lparr> returned = Inr a, notified = True, delivered = sent,
                        status_file_after =
                          (if sent then save_status current_status (status_file w) (status_write w)
                           else status_file w),
                        metrics_file_after =
                          save_metrics_history a (metrics_file w) (metrics_write w) \<rparr>
                    else
                      \<lparr> returned = Inr a, notified = False, delivered = False,
                        status_file_after = status_file w,
                        metrics_file_after =
                          save_metrics_history a (metrics_file w) (metrics_write w) \<rparr>)))"

section \<open>The specification's rules, in its own words\<close>

text \<open>
  The four primary issues of the specification's classifier, and its resolution policy:
  no issue is \<^verbatim>\<open>Up\<close>; exactly one issue that is neither "ping missing" nor "data too
  old" is \<^verbatim>\<open>Degraded\<close>; everything else is \<^verbatim>\<open>Down\<close>.
\<close>

definition ping_missing :: "json \<Rightarrow> bool" where
  "ping_missing ping = (ping = JNull)"

definition ping_above_max :: "config \<Rightarrow> json \<Rightarrow> bool" where
  "ping_above_max c ping =
     (case py_num ping of None \<Rightarrow> False | Some r \<Rightarrow> of_int (max_acceptable_ping c) < r)"

definition servers_below_min :: "config \<Rightarrow> json \<Rightarrow> bool" where
  "servers_below_min c servers =
     (case py_num servers of None \<Rightarrow> False | Some r \<Rightarrow> r < of_int (min_servers_expected c))"

definition data_too_old :: "config \<Rightarrow> rat \<Rightarrow> bool" where
  "data_too_old c age = (of_int (max_data_age_minutes c) < age)"

definition policy_status :: "config \<Rightarrow> json \<Rightarrow> json \<Rightarrow> rat \<Rightarrow> string" where
  "policy_status c ping servers age =
     (let n = length (filter id
                [ping_missing ping, ping_above_max c ping,
                 servers_below_min c servers, data_too_old c age])
      in if n = 0 then ''UP''
         else if n = 1 \<and> \<not> ping_missing ping \<and> \<not> data_too_old c age then ''DEGRADED''
         else ''DOWN'')"

text \<open>
  The specification's change detector: notify when there is no prior status, when the
  status changed, when the status is critical, or when the force flag is set.
\<close>

definition notify_rule :: "string option \<Rightarrow> string \<Rightarrow> bool \<Rightarrow> bool" where
  "notify_rule last_status current_status forced =
     (last_status = None \<or> Some current_status \<noteq> last_status
        \<or> current_status \<in> {''DOWN'', ''API_ERROR''} \<or> forced)"

section \<open>Readings and their types\<close>

text \<open>
  The reading that the interface documents has a \<^verbatim>\<open>ping\<close> that is a number or null
  and a \<^verbatim>\<open>servers\<close> that is a number. \<open>orderable\<close> says when the comparisons of
  \<^verbatim>\<open>determine_overall_status\<close> do not raise on an \<^verbatim>\<open>Up\<close> reading, \<open>printable\<close> when
  those of \<^verbatim>\<open>identify_issues\<close> do not raise on any reading.
\<close>

definition is_number :: "json \<Rightarrow> bool" where
  "is_number v = (case py_num v of None \<Rightarrow> False | Some r \<Rightarrow> True)"

definition orderable :: "pydict \<Rightarrow> bool" where
  "orderable d =
     ((dict_get d ''ping'' JNull = JNull \<or> is_number (dict_get d ''ping'' JNull))
      \<and> is_number (dict_get d ''servers'' (JInt 0)))"

definition printable :: "pydict \<Rightarrow> bool" where
  "printable d =
     ((is_number (dict_get d ''ping'' JNull) \<or> \<not> truthy (dict_get d ''ping'' JNull))
      \<and> is_number (dict_get d ''servers'' (JInt 0)))"

text \<open>\<^verbatim>\<open>analysis.get('issues', [])\<close>, as \<^verbatim>\<open>run\<close> and the embed read the issues.\<close>

definition issues_or_empty :: "analysis \<Rightarrow> issue list" where
  "issues_or_empty a = (case issues a of None \<Rightarrow> [] | Some xs \<Rightarrow> xs)"

text \<open>
  A date that is present and cannot be turned into an age: a truthy value that is no
  string, or a string on which parsing or the subtraction raises.
\<close>

definition date_unparsable :: "clock \<Rightarrow> json \<Rightarrow> bool" where
  "date_unparsable clk v =
     (truthy v \<and> (case v of JStr s \<Rightarrow> age_minutes clk s = None | _ \<Rightarrow> True))"

text \<open>When the fetch fails: the cases in which \<^verbatim>\<open>fetch_api_data\<close> does not reach
  \<^verbatim>\<open>api_data['success'] = True\<close>.\<close>

definition fetch_failed :: "get_outcome \<Rightarrow> bool" where
  "fetch_failed g =
     (case g of
        Response code why b \<Rightarrow>
          (if code = 200 then (case b of Parsed (JObj kvs) \<Rightarrow> False | _ \<Rightarrow> True) else True)
      | _ \<Rightarrow> True)"

section \<open>Sample inputs\<close>

text \<open>
  A healthy reading observed at noon, and two clocks: two minutes and twenty minutes
  after the observation.
\<close>

definition healthy_body :: "(string \<times> json) list" where
  "healthy_body =
     [(''status'', JInt 1), (''ping'', JInt 35), (''servers'', JInt 1600),
      (''players'', JInt 4200), (''date'', JStr ''2025-01-01T12:00:00Z'')]"

definition healthy_reading :: pydict where
  "healthy_reading = (map_of healthy_body)(''success'' \<mapsto> JBool True)"

definition undated_reading :: pydict where
  "undated_reading = healthy_reading(''date'' := None)"

definition clock_fresh :: clock where
  "clock_fresh =
     \<lparr> local_now = ''01/01/2025 12:02:00'',
       age_minutes = (\<lambda>s. if s = ''2025-01-01T12:00:00Z'' then Some 2 else None) \<rparr>"

definition clock_late :: clock where
  "clock_late =
     \<lparr> local_now = ''01/01/2025 12:20:00'',
       age_minutes = (\<lambda>s. if s = ''2025-01-01T12:00:00Z'' then Some 20 else None) \<rparr>"

text \<open>
  A run that finds the servers healthy, with \<^verbatim>\<open>UP\<close> already in the status file, the
  force flag unset and a webhook that answers 204; the same with a webhook that answers
  500 and \<^verbatim>\<open>DOWN\<close> in the status file; a run whose request times out; one whose request is answered 503; and the first
  run with \<^verbatim>\<open>DOWN\<close> in the status file.
\<close>

definition world_up :: world where
  "world_up =
     \<lparr> http_get = Response 200 ''OK'' (Parsed (JObj healthy_body)),
       request_time = 1 / 4,
       now_iso = ''2025-01-01T12:02:00.000000'',
       wall_clock = clock_fresh,
       force_notification = None,
       http_post = Post_response 204,
       status_file = Contents ''UP'',
       status_write = Written,
       metrics_file = Missing,
       metrics_write = Written \<rparr>"

definition world_undelivered :: world where
  "world_undelivered =
     world_up\<lparr> http_post := Post_response 500, status_file := Contents ''DOWN'' \<rparr>"

definition world_timeout :: world where
  "world_timeout = world_up\<lparr> http_get := Timeout \<rparr>"

definition world_unavailable :: world where
  "world_unavailable =
     world_up\<lparr> http_get := Response 503 ''Service Unavailable'' Invalid_json \<rparr>"

definition world_recovered :: world where
  "world_recovered = world_up\<lparr> status_file := Contents ''DOWN'' \<rparr>"

definition webhook_config :: config where
  "webhook_config = init_config (Some ''https://discord.example/api/webhooks/1'')"

text \<open>Variations of the healthy reading.\<close>

definition low_servers_reading :: pydict where
  "low_servers_reading = healthy_reading(''servers'' \<mapsto> JInt 900)"

definition down_reading :: pydict where
  "down_reading = healthy_reading(''status'' \<mapsto> JInt 0, ''ping'' \<mapsto> JNull)"

definition serverless_reading :: pydict where
  "serverless_reading = healthy_reading(''servers'' := None)"

definition misdated_reading :: pydict where
  "misdated_reading = healthy_reading(''date'' \<mapsto> JStr ''yesterday'')"

definition warming_reading :: pydict where
  "warming_reading = healthy_reading(''ping'' \<mapsto> JInt 120, ''servers'' \<mapsto> JInt 1100)"

text \<open>
  A clock in another time zone that reads the same age for the observation, and an age
  for any other string as well.
\<close>

definition clock_elsewhere :: clock where
  "clock_elsewhere =
     \<lparr> local_now = ''01/01/2025 13:02:00'', age_minutes = (\<lambda>s. Some 2) \<rparr>"

definition relaxed_config :: config where
  "relaxed_config = (init_config None)\<lparr>warning_ping := 130, warning_servers := 1000\<rparr>"

section \<open>The dictionary before the status is known\<close>

text \<open>
  The dictionary that \<^verbatim>\<open>analyze_acc_status\<close> builds from a fetched reading and hands
  to \<^verbatim>\<open>determine_overall_status\<close>, before the keys \<^verbatim>\<open>status\<close> and \<^verbatim>\<open>issues\<close> are
  set.
\<close>

definition prelim :: "clock \<Rightarrow> pydict \<Rightarrow> analysis" where
  "prelim clk api_data =
     \<lparr> status = None,
       reason = None,
       timestamp = local_now clk,
       source = ''acc_api'',
       api_status = Some (dict_get api_data ''status'' JNull),
       ping_ms = Some (dict_get api_data ''ping'' JNull),
       servers_count = Some (dict_get api_data ''servers'' (JInt 0)),
       players_count = Some (dict_get api_data ''players'' (JInt 0)),
       data_age_minutes = Some (data_age_of clk (dict_get api_data ''date'' JNull)),
       down_since = Some (dict_get api_data ''down_since'' JNull),
       api_response_time = Some (dict_get api_data ''_request_time'' (JInt 0)),
       issues = None \<rparr>"

section \<open>Properties of the classifier\<close>

lemmas python_defs =
  and_then_def item_def dict_get_def py_eq_def py_gt_def py_lt_def py_le_def py_ge_def
  is_number_def

lemmas classifier_defs =
  analyze_acc_status_def determine_overall_status_def identify_issues_def data_age_of_def
  Let_def

lemmas run_defs =
  run_def aborted_def fetch_api_data_def create_api_error_def log_metrics_def
  significant_change_def tuple_truthy_def tuple_len_def send_discord_notification_def
  create_discord_embed_def get_last_status_def save_status_def save_metrics_history_def
  strip_def is_space_def lower_def lower_char_def

lemmas world_defs =
  world_up_def world_undelivered_def world_timeout_def world_unavailable_def
  world_recovered_def webhook_config_def

lemmas sample_defs =
  healthy_body_def healthy_reading_def undated_reading_def low_servers_reading_def
  down_reading_def serverless_reading_def misdated_reading_def warming_reading_def
  clock_fresh_def clock_late_def clock_elsewhere_def relaxed_config_def init_config_def

lemma py_eq_excl: "py_eq v 1 \<Longrightarrow> \<not> py_eq v 0 \<and> \<not> py_eq v (- 1)"
  by (auto simp: py_eq_def)

lemma prelim_fields [simp]:
  "api_status (prelim clk d) = Some (dict_get d ''status'' JNull)"
  "ping_ms (prelim clk d) = Some (dict_get d ''ping'' JNull)"
  "servers_count (prelim clk d) = Some (dict_get d ''servers'' (JInt 0))"
  "data_age_minutes (prelim clk d) = Some (data_age_of clk (dict_get d ''date'' JNull))"
  by (simp_all add: prelim_def)

subsection \<open>\<^verbatim>\<open>determine_overall_status\<close> and \<^verbatim>\<open>identify_issues\<close> on a dictionary with all keys\<close>

lemma determine_up:
  assumes "api_status a = Some st" "ping_ms a = Some p" "servers_count a = Some s"
    "data_age_minutes a = Some g" "py_eq st 1"
  shows "determine_overall_status c a =
    (if (p = JNull \<or> is_number p) \<and> is_number s then Inr (policy_status c p s g)
     else Inl TypeError)"
proof -
  from assms(5) have ne: "\<not> py_eq st 0" "\<not> py_eq st (- 1)"
    using py_eq_excl by blast+
  show ?thesis
  proof (cases "p = JNull")
    case True
    then show ?thesis using assms ne
      by (cases "py_num s")
        (simp_all add: determine_overall_status_def and_then_def item_def py_lt_def
          is_number_def policy_status_def ping_missing_def ping_above_max_def
          servers_below_min_def data_too_old_def)
  next
    case False
    then show ?thesis using assms ne
      by (cases "py_num p"; cases "py_num s")
        (simp_all add: determine_overall_status_def and_then_def item_def py_lt_def py_gt_def
          is_number_def policy_status_def ping_missing_def ping_above_max_def
          servers_below_min_def data_too_old_def)
  qed
qed

lemma determine_not_up:
  assumes "api_status a = Some st" "ping_ms a = Some p" "servers_count a = Some s"
    "data_age_minutes a = Some g" "\<not> py_eq st 1"
  shows "determine_overall_status c a =
    Inr (if py_eq st 0 then ''DOWN'' else if py_eq st (- 1) then ''UNKNOWN'' else ''API_ERROR'')"
  using assms by (simp add: determine_overall_status_def and_then_def item_def)

lemma determine_fields:
  assumes "api_status a = api_status b" "ping_ms a = ping_ms b"
    "servers_count a = servers_count b" "data_age_minutes a = data_age_minutes b"
  shows "determine_overall_status c a = determine_overall_status c b"
  using assms by (simp add: determine_overall_status_def)

lemma determine_warning:
  "determine_overall_status (c\<lparr>warning_ping := wp, warning_servers := ws\<rparr>) a =
   determine_overall_status c a"
  by (simp add: determine_overall_status_def Let_def cong: if_cong)

lemma identify_issues_raises:
  assumes "api_status a = Some st" "ping_ms a = Some p" "servers_count a = Some s"
    "data_age_minutes a = Some g"
  shows "(\<exists>iss. identify_issues c a = Inr iss) =
           ((is_number p \<or> \<not> truthy p) \<and> is_number s)"
    and "(identify_issues c a = Inl TypeError) =
           (\<not> ((is_number p \<or> \<not> truthy p) \<and> is_number s))"
  using assms
  by (cases "py_num p"; cases "py_num s";
      simp add: identify_issues_def and_then_def item_def py_lt_def py_gt_def is_number_def
        Let_def)+

lemma identify_servers_low:
  assumes "api_status a = Some st" "ping_ms a = Some p" "servers_count a = Some s"
    "data_age_minutes a = Some g" "identify_issues c a = Inr iss" "servers_below_min c s"
  shows "Servers_count_low s (min_servers_expected c) \<in> set iss"
  using assms
  by (cases "py_num s")
     (auto simp: identify_issues_def and_then_def item_def py_lt_def servers_below_min_def
        Let_def split: if_splits sum.splits)

lemma identify_data_old:
  assumes "api_status a = Some st" "ping_ms a = Some p" "servers_count a = Some s"
    "data_age_minutes a = Some g" "identify_issues c a = Inr iss" "data_too_old c g"
  shows "Data_too_old g (max_data_age_minutes c) \<in> set iss"
  using assms
  by (auto simp: identify_issues_def and_then_def item_def data_too_old_def
        Let_def split: if_splits sum.splits)

lemma policy_old: "data_too_old c g \<Longrightarrow> policy_status c p s g = ''DOWN''"
  by (simp add: policy_status_def Let_def)

lemma policy_servers_low:
  "servers_below_min c s \<Longrightarrow> policy_status c p s g =
     (if ping_missing p \<or> ping_above_max c p \<or> data_too_old c g then ''DOWN''
      else ''DEGRADED'')"
  by (simp add: policy_status_def Let_def)

subsection \<open>\<^verbatim>\<open>analyze_acc_status\<close>\<close>

lemma analyze_success:
  assumes "truthy (dict_get d ''success'' (JBool False))"
  shows "analyze_acc_status c clk d =
     and_then (determine_overall_status c (prelim clk d)) (\<lambda>st.
       and_then (identify_issues c ((prelim clk d)\<lparr>status := Some st\<rparr>)) (\<lambda>iss.
         Inr ((prelim clk d)\<lparr>status := Some st, issues := Some iss\<rparr>)))"
  using assms by (simp add: analyze_acc_status_def prelim_def Let_def)

lemma analyze_failure_value:
  assumes "\<not> truthy (dict_get d ''success'' (JBool False))"
  shows "analyze_acc_status c clk d =
     Inr \<lparr> status = Some ''API_ERROR'',
           reason = Some (dict_get d ''error'' (JStr ''API error'')),
           timestamp = local_now clk, source = ''api_error'',
           api_status = None, ping_ms = None, servers_count = None,
           players_count = None, data_age_minutes = None, down_since = None,
           api_response_time = None, issues = None \<rparr>"
  using assms by (simp add: analyze_acc_status_def)

lemma analyze_shape:
  assumes "truthy (dict_get d ''success'' (JBool False))"
  shows "map_sum id status (analyze_acc_status c clk d) =
     (case determine_overall_status c (prelim clk d) of
        Inl e \<Rightarrow> Inl e
      | Inr st \<Rightarrow> if printable d then Inr (Some st) else Inl TypeError)"
proof (cases "determine_overall_status c (prelim clk d)")
  case (Inl e)
  then show ?thesis using assms by (simp add: analyze_success and_then_def)
next
  case (Inr st)
  let ?a = "(prelim clk d)\<lparr>status := Some st\<rparr>"
  have r: "(\<exists>iss. identify_issues c ?a = Inr iss) = printable d"
    "(identify_issues c ?a = Inl TypeError) = (\<not> printable d)"
    using identify_issues_raises [of ?a _ _ _ _ c] by (simp_all add: printable_def)
  show ?thesis
  proof (cases "printable d")
    case True
    then obtain iss where "identify_issues c ?a = Inr iss" using r(1) by blast
    then show ?thesis using Inr True assms by (simp add: analyze_success and_then_def)
  next
    case False
    then have "identify_issues c ?a = Inl TypeError" using r(2) by blast
    then show ?thesis using Inr False assms by (simp add: analyze_success and_then_def)
  qed
qed

lemma analyze_up_value:
  assumes "truthy (dict_get d ''success'' (JBool False))"
    and "py_eq (dict_get d ''status'' JNull) 1"
    and "orderable d"
  shows "\<exists>iss. identify_issues c ((prelim clk d)\<lparr>status := Some (policy_status c
               (dict_get d ''ping'' JNull) (dict_get d ''servers'' (JInt 0))
               (data_age_of clk (dict_get d ''date'' JNull)))\<rparr>) = Inr iss \<and>
          analyze_acc_status c clk d = Inr ((prelim clk d)\<lparr>status := Some (policy_status c
               (dict_get d ''ping'' JNull) (dict_get d ''servers'' (JInt 0))
               (data_age_of clk (dict_get d ''date'' JNull))), issues := Some iss\<rparr>)"
proof -
  let ?p = "dict_get d ''ping'' JNull" and ?s = "dict_get d ''servers'' (JInt 0)"
  let ?g = "data_age_of clk (dict_get d ''date'' JNull)"
  have det: "determine_overall_status c (prelim clk d) = Inr (policy_status c ?p ?s ?g)"
    using determine_up [of "prelim clk d" _ ?p ?s ?g c] assms(2,3)
    by (simp add: orderable_def)
  from assms(3) have "(is_number ?p \<or> \<not> truthy ?p) \<and> is_number ?s"
    by (auto simp: orderable_def)
  then obtain iss where
    "identify_issues c ((prelim clk d)\<lparr>status := Some (policy_status c ?p ?s ?g)\<rparr>) = Inr iss"
    using identify_issues_raises(1)
      [of "(prelim clk d)\<lparr>status := Some (policy_status c ?p ?s ?g)\<rparr>" _ ?p ?s ?g c]
    by auto
  then show ?thesis using det assms(1)
    by (simp add: analyze_success and_then_def)
qed

lemma analyze_up_raises:
  assumes "truthy (dict_get d ''success'' (JBool False))"
    and "py_eq (dict_get d ''status'' JNull) 1"
    and "\<not> orderable d"
  shows "analyze_acc_status c clk d = Inl TypeError"
proof -
  have "determine_overall_status c (prelim clk d) = Inl TypeError"
    using determine_up [of "prelim clk d" _ "dict_get d ''ping'' JNull"
      "dict_get d ''servers'' (JInt 0)" "data_age_of clk (dict_get d ''date'' JNull)" c]
      assms(2,3)
    by (simp add: orderable_def)
  then show ?thesis using assms(1) by (simp add: analyze_success and_then_def)
qed

subsection \<open>Status resolution\<close>

text \<open>
  Claim C1. For a fetched reading whose raw status is \<^verbatim>\<open>Up\<close> (\<^verbatim>\<open>success\<close> is true and
  \<^verbatim>\<open>status == 1\<close>), \<^verbatim>\<open>analyze_acc_status\<close> returns an analysis whose status is the
  one the asymmetric policy prescribes: \<^verbatim>\<open>UP\<close> with none of the four primary issues
  (ping missing, ping above the maximum, server count below the minimum, data older than
  the maximum), \<^verbatim>\<open>DEGRADED\<close> with exactly one issue that is neither "ping missing" nor
  "data too old", and \<^verbatim>\<open>DOWN\<close> in every other case. This holds whenever the ping is
  null or a number and the server count is a number; on any other reading the
  comparisons raise \<^verbatim>\<open>TypeError\<close> and no analysis is produced.
\<close>

theorem status_resolution_policy:
  assumes "truthy (dict_get d ''success'' (JBool False))"
    and "py_eq (dict_get d ''status'' JNull) 1"
  shows "if orderable d
         then \<exists>a. analyze_acc_status c clk d = Inr a \<and>
                status a = Some (policy_status c (dict_get d ''ping'' JNull)
                  (dict_get d ''servers'' (JInt 0))
                  (data_age_of clk (dict_get d ''date'' JNull)))
         else analyze_acc_status c clk d = Inl TypeError"
proof (cases "orderable d")
  case True
  from analyze_up_value [OF assms this, of c clk] show ?thesis
    using True by auto
next
  case False
  from analyze_up_raises [OF assms this] show ?thesis
    using False by simp
qed

text \<open>
  The reading with 900 servers, a ping of 35 ms and data two minutes old has the single
  issue "servers low", and is \<^verbatim>\<open>DEGRADED\<close>.
\<close>

theorem status_resolution_policy_witness:
  "truthy (dict_get low_servers_reading ''success'' (JBool False)) \<and>
   py_eq (dict_get low_servers_reading ''status'' JNull) 1 \<and>
   orderable low_servers_reading \<and>
   (\<exists>a. analyze_acc_status (init_config None) clock_fresh low_servers_reading = Inr a \<and>
      status a = Some ''DEGRADED'')"
proof -
  have h1: "truthy (dict_get low_servers_reading ''success'' (JBool False))"
    by (simp add: sample_defs dict_get_def)
  have h2: "py_eq (dict_get low_servers_reading ''status'' JNull) 1"
    by (simp add: sample_defs dict_get_def py_eq_def)
  have o: "orderable low_servers_reading"
    by (simp add: sample_defs orderable_def python_defs)
  have p: "policy_status (init_config None) (dict_get low_servers_reading ''ping'' JNull)
      (dict_get low_servers_reading ''servers'' (JInt 0))
      (data_age_of clock_fresh (dict_get low_servers_reading ''date'' JNull)) = ''DEGRADED''"
    by (simp add: sample_defs dict_get_def data_age_of_def policy_status_def ping_missing_def
        ping_above_max_def servers_below_min_def data_too_old_def)
  from status_resolution_policy [OF h1 h2, of "init_config None" clock_fresh]
  show ?thesis using h1 h2 o p by simp
qed

subsection \<open>Raw status codes\<close>

text \<open>
  Claim C6. For a fetched reading whose raw status is not \<^verbatim>\<open>Up\<close>,
  \<^verbatim>\<open>determine_overall_status\<close> returns \<^verbatim>\<open>DOWN\<close> for the code 0, \<^verbatim>\<open>UNKNOWN\<close> for the
  code -1 and \<^verbatim>\<open>API_ERROR\<close> for any other value, whatever the ping, the server count,
  the player count and the age of the data are: the quality checks are not reached.
  \<^verbatim>\<open>analyze_acc_status\<close> returns an analysis with that status whenever the messages of
  \<^verbatim>\<open>identify_issues\<close> can be built (the server count is a number and the ping is a number
  or falsy); otherwise it raises \<^verbatim>\<open>TypeError\<close>.
\<close>

theorem raw_status_mapping:
  assumes "truthy (dict_get d ''success'' (JBool False))"
    and "\<not> py_eq (dict_get d ''status'' JNull) 1"
  shows "determine_overall_status c (prelim clk d) =
           Inr (if py_eq (dict_get d ''status'' JNull) 0 then ''DOWN''
                else if py_eq (dict_get d ''status'' JNull) (- 1) then ''UNKNOWN''
                else ''API_ERROR'') \<and>
         map_sum id status (analyze_acc_status c clk d) =
           (if printable d
            then Inr (Some (if py_eq (dict_get d ''status'' JNull) 0 then ''DOWN''
                            else if py_eq (dict_get d ''status'' JNull) (- 1) then ''UNKNOWN''
                            else ''API_ERROR''))
            else Inl TypeError)"
  using assms determine_not_up [of "prelim clk d" _ _ _ _ c]
  by (simp add: analyze_shape)

text \<open>
  The reading with status code 0 and no ping is \<^verbatim>\<open>DOWN\<close>, also twenty minutes after
  its observation.
\<close>

theorem raw_status_mapping_witness:
  "truthy (dict_get down_reading ''success'' (JBool False)) \<and>
   \<not> py_eq (dict_get down_reading ''status'' JNull) 1 \<and>
   printable down_reading \<and>
   map_sum id status (analyze_acc_status (init_config None) clock_late down_reading) =
     Inr (Some ''DOWN'')"
proof -
  have h1: "truthy (dict_get down_reading ''success'' (JBool False))"
    by (simp add: sample_defs dict_get_def)
  have h2: "\<not> py_eq (dict_get down_reading ''status'' JNull) 1"
    by (simp add: sample_defs dict_get_def py_eq_def)
  have z: "py_eq (dict_get down_reading ''status'' JNull) 0"
    by (simp add: sample_defs dict_get_def py_eq_def)
  have o: "printable down_reading"
    by (simp add: sample_defs printable_def python_defs)
  from raw_status_mapping [OF h1 h2, where c = "init_config None" and clk = clock_late]
  show ?thesis using h1 h2 o z by simp
qed

subsection \<open>Warning thresholds\<close>

text \<open>
  Claim C8. The warning thresholds do not decide the status: classifying the same
  reading at the same clock under two configurations that differ only in
  \<^verbatim>\<open>warning_ping\<close> and \<^verbatim>\<open>warning_servers\<close> gives the same status, or the same exception.
  The warning-level messages of \<^verbatim>\<open>identify_issues\<close> are computed after the status and
  are not read by \<^verbatim>\<open>determine_overall_status\<close>.
\<close>

theorem warning_thresholds_do_not_decide_status:
  "map_sum id status
     (analyze_acc_status (c\<lparr>warning_ping := wp, warning_servers := ws\<rparr>) clk d) =
   map_sum id status (analyze_acc_status c clk d)"
proof (cases "truthy (dict_get d ''success'' (JBool False))")
  case True
  then show ?thesis by (simp add: analyze_shape determine_warning)
next
  case False
  then show ?thesis by (simp add: analyze_failure_value)
qed

text \<open>
  A ping of 120 ms and 1100 servers are reported as two warnings under the shipped
  thresholds and as none under relaxed ones; the status is \<^verbatim>\<open>UP\<close> under both.
\<close>

theorem warning_thresholds_do_not_decide_status_witness:
  "map_sum id status (analyze_acc_status relaxed_config clock_fresh warming_reading) =
     Inr (Some ''UP'') \<and>
   map_sum id issues (analyze_acc_status relaxed_config clock_fresh warming_reading) =
     Inr (Some []) \<and>
   map_sum id issues (analyze_acc_status (init_config None) clock_fresh warming_reading) =
     Inr (Some [Ping_warning (JInt 120) 100, Servers_count_decreasing (JInt 1100)])"
proof -
  have a: "map_sum id status (analyze_acc_status (init_config None) clock_fresh warming_reading) =
     Inr (Some ''UP'')"
    by (simp add: sample_defs classifier_defs python_defs)
  have b: "map_sum id issues (analyze_acc_status relaxed_config clock_fresh warming_reading) =
     Inr (Some [])"
    by (simp add: sample_defs classifier_defs python_defs)
  have c: "map_sum id issues (analyze_acc_status (init_config None) clock_fresh warming_reading) =
     Inr (Some [Ping_warning (JInt 120) 100, Servers_count_decreasing (JInt 1100)])"
    by (simp add: sample_defs classifier_defs python_defs)
  from warning_thresholds_do_not_decide_status
    [where c = "init_config None" and wp = 130 and ws = 1000 and clk = clock_fresh
      and d = warming_reading]
  have "map_sum id status (analyze_acc_status relaxed_config clock_fresh warming_reading) =
     Inr (Some ''UP'')"
    unfolding relaxed_config_def using a by simp
  then show ?thesis using b c by simp
qed

subsection \<open>The clock\<close>

text \<open>
  Claim C9, as the code has it. The status is a function of the reading, the thresholds
  and the age of the data, which \<^verbatim>\<open>analyze_acc_status\<close> computes from the reading's
  date and the wall clock at the moment of the call: two classifications of the same
  reading under the same thresholds give the same status (or the same exception) whenever
  their clocks give the same age for the reading's date. Nothing else of the clock, and
  no other state, is read.
\<close>

theorem status_depends_on_clock_through_age:
  assumes "data_age_of clk1 (dict_get d ''date'' JNull) =
           data_age_of clk2 (dict_get d ''date'' JNull)"
  shows "map_sum id status (analyze_acc_status c clk1 d) =
         map_sum id status (analyze_acc_status c clk2 d)"
proof (cases "truthy (dict_get d ''success'' (JBool False))")
  case True
  have "determine_overall_status c (prelim clk1 d) = determine_overall_status c (prelim clk2 d)"
    using assms by (intro determine_fields) simp_all
  then show ?thesis using True by (simp add: analyze_shape)
next
  case False
  then show ?thesis by (simp add: analyze_failure_value)
qed

text \<open>
  Two clocks in different time zones that agree on the age of the healthy reading both
  classify it \<^verbatim>\<open>UP\<close>.
\<close>

theorem status_depends_on_clock_through_age_witness:
  "data_age_of clock_fresh (dict_get healthy_reading ''date'' JNull) =
     data_age_of clock_elsewhere (dict_get healthy_reading ''date'' JNull) \<and>
   local_now clock_fresh \<noteq> local_now clock_elsewhere \<and>
   map_sum id status (analyze_acc_status (init_config None) clock_elsewhere healthy_reading) =
     Inr (Some ''UP'')"
proof -
  have h: "data_age_of clock_fresh (dict_get healthy_reading ''date'' JNull) =
     data_age_of clock_elsewhere (dict_get healthy_reading ''date'' JNull)"
    by (simp add: sample_defs dict_get_def data_age_of_def)
  have a: "map_sum id status (analyze_acc_status (init_config None) clock_fresh healthy_reading) =
     Inr (Some ''UP'')"
    by (simp add: sample_defs classifier_defs python_defs)
  from status_depends_on_clock_through_age [OF h, where c = "init_config None"]
  show ?thesis using h a by (simp add: clock_fresh_def clock_elsewhere_def)
qed

text \<open>
  The status is not a function of the reading and the thresholds alone: the healthy
  reading under the shipped thresholds is \<^verbatim>\<open>UP\<close> two minutes after its observation and
  \<^verbatim>\<open>DOWN\<close> twenty minutes after it.
\<close>

theorem status_depends_on_clock_counterexample:
  "map_sum id status (analyze_acc_status (init_config None) clock_fresh healthy_reading) =
     Inr (Some ''UP'') \<and>
   map_sum id status (analyze_acc_status (init_config None) clock_late healthy_reading) =
     Inr (Some ''DOWN'')"
  by (simp add: sample_defs classifier_defs python_defs)

subsection \<open>A missing server count\<close>

text \<open>
  Claim C10. For a fetched reading with raw status \<^verbatim>\<open>Up\<close> that has no \<^verbatim>\<open>servers\<close>
  key, the server count is taken as 0. With a positive \<^verbatim>\<open>min_servers_expected\<close> the
  message "servers count low" is among the issues, and the status is \<^verbatim>\<open>DEGRADED\<close>
  when that is the only primary issue and \<^verbatim>\<open>DOWN\<close> otherwise; it is never \<^verbatim>\<open>UP\<close>.
  A ping that is neither null nor a number raises \<^verbatim>\<open>TypeError\<close>.
\<close>

theorem missing_servers_never_up:
  assumes "truthy (dict_get d ''success'' (JBool False))"
    and "py_eq (dict_get d ''status'' JNull) 1"
    and "d ''servers'' = None"
    and "0 < min_servers_expected c"
  shows "if dict_get d ''ping'' JNull = JNull \<or> is_number (dict_get d ''ping'' JNull)
         then \<exists>a. analyze_acc_status c clk d = Inr a \<and>
                servers_count a = Some (JInt 0) \<and>
                Servers_count_low (JInt 0) (min_servers_expected c) \<in> set (issues_or_empty a) \<and>
                status a = Some
                  (if ping_missing (dict_get d ''ping'' JNull)
                      \<or> ping_above_max c (dict_get d ''ping'' JNull)
                      \<or> data_too_old c (data_age_of clk (dict_get d ''date'' JNull))
                   then ''DOWN'' else ''DEGRADED'')
         else analyze_acc_status c clk d = Inl TypeError"
proof -
  let ?p = "dict_get d ''ping'' JNull" and ?g = "data_age_of clk (dict_get d ''date'' JNull)"
  have s0: "dict_get d ''servers'' (JInt 0) = JInt 0"
    using assms(3) by (simp add: dict_get_def)
  have low: "servers_below_min c (JInt 0)"
    using assms(4) by (simp add: servers_below_min_def)
  have ord: "orderable d = (?p = JNull \<or> is_number ?p)"
    by (simp add: orderable_def s0 is_number_def)
  show ?thesis
  proof (cases "?p = JNull \<or> is_number ?p")
    case True
    with ord have "orderable d" by simp
    from analyze_up_value [OF assms(1,2) this, of c clk] obtain iss where
      iss: "identify_issues c
              ((prelim clk d)\<lparr>status := Some (policy_status c ?p (JInt 0) ?g)\<rparr>) = Inr iss"
      and res: "analyze_acc_status c clk d =
        Inr ((prelim clk d)\<lparr>status := Some (policy_status c ?p (JInt 0) ?g),
               issues := Some iss\<rparr>)"
      by (auto simp: s0)
    have "Servers_count_low (JInt 0) (min_servers_expected c) \<in> set iss"
      using identify_servers_low [OF _ _ _ _ iss low] by (simp add: s0)
    then show ?thesis using True res policy_servers_low [OF low, of ?p ?g]
      by (simp add: issues_or_empty_def s0)
  next
    case False
    with ord have "\<not> orderable d" by simp
    from analyze_up_raises [OF assms(1,2) this] show ?thesis using False by simp
  qed
qed

text \<open>
  The healthy reading without its \<^verbatim>\<open>servers\<close> key is \<^verbatim>\<open>DEGRADED\<close> under the shipped
  thresholds.
\<close>

theorem missing_servers_never_up_witness:
  "truthy (dict_get serverless_reading ''success'' (JBool False)) \<and>
   py_eq (dict_get serverless_reading ''status'' JNull) 1 \<and>
   serverless_reading ''servers'' = None \<and>
   0 < min_servers_expected (init_config None) \<and>
   (\<exists>a. analyze_acc_status (init_config None) clock_fresh serverless_reading = Inr a \<and>
      servers_count a = Some (JInt 0) \<and>
      Servers_count_low (JInt 0) 1000 \<in> set (issues_or_empty a) \<and>
      status a = Some ''DEGRADED'')"
proof -
  have h1: "truthy (dict_get serverless_reading ''success'' (JBool False))"
    by (simp add: sample_defs dict_get_def)
  have h2: "py_eq (dict_get serverless_reading ''status'' JNull) 1"
    by (simp add: sample_defs dict_get_def py_eq_def)
  have h3: "serverless_reading ''servers'' = None"
    by (simp add: sample_defs)
  have h4: "0 < min_servers_expected (init_config None)"
    by (simp add: init_config_def)
  have p: "is_number (dict_get serverless_reading ''ping'' JNull)"
    "\<not> ping_missing (dict_get serverless_reading ''ping'' JNull)"
    "\<not> ping_above_max (init_config None) (dict_get serverless_reading ''ping'' JNull)"
    "\<not> data_too_old (init_config None)
         (data_age_of clock_fresh (dict_get serverless_reading ''date'' JNull))"
    by (simp_all add: sample_defs python_defs data_age_of_def ping_missing_def
        ping_above_max_def data_too_old_def)
  from missing_servers_never_up [OF h1 h2 h3 h4, where clk = clock_fresh]
  show ?thesis using h1 h2 h3 h4 p by (simp add: init_config_def)
qed

subsection \<open>The age of the data\<close>

text \<open>
  Claim C5, as the code has it. For a fetched reading with raw status \<^verbatim>\<open>Up\<close> whose
  date is present but cannot be turned into an age (a truthy value that is no string, or
  a string on which parsing or the subtraction raises), the age is the sentinel 999. When
  \<^verbatim>\<open>max_data_age_minutes\<close> is below 999, as the shipped 15 is, the message "data too
  old" is among the issues and the status is \<^verbatim>\<open>DOWN\<close>. A date that is absent, null or
  empty is not examined: the age stays 0.
\<close>

theorem unparsable_date_is_stale:
  assumes "truthy (dict_get d ''success'' (JBool False))"
    and "py_eq (dict_get d ''status'' JNull) 1"
    and "max_data_age_minutes c < 999"
  shows "(date_unparsable clk (dict_get d ''date'' JNull) \<longrightarrow>
            data_age_of clk (dict_get d ''date'' JNull) = 999 \<and>
            (if orderable d
             then \<exists>a. analyze_acc_status c clk d = Inr a \<and>
                    data_age_minutes a = Some 999 \<and>
                    Data_too_old 999 (max_data_age_minutes c) \<in> set (issues_or_empty a) \<and>
                    status a = Some ''DOWN''
             else analyze_acc_status c clk d = Inl TypeError)) \<and>
         (\<not> truthy (dict_get d ''date'' JNull) \<longrightarrow>
            data_age_of clk (dict_get d ''date'' JNull) = 0)"
proof -
  let ?p = "dict_get d ''ping'' JNull" and ?s = "dict_get d ''servers'' (JInt 0)"
  let ?v = "dict_get d ''date'' JNull"
  have absent: "\<not> truthy ?v \<Longrightarrow> data_age_of clk ?v = 0"
    by (simp add: data_age_of_def)
  have stale: "data_age_of clk ?v = 999" if "date_unparsable clk ?v"
    using that by (auto simp: date_unparsable_def data_age_of_def split: json.splits)
  have res: "\<exists>a. analyze_acc_status c clk d = Inr a \<and>
                    data_age_minutes a = Some 999 \<and>
                    Data_too_old 999 (max_data_age_minutes c) \<in> set (issues_or_empty a) \<and>
                    status a = Some ''DOWN''"
    if u: "date_unparsable clk ?v" and o: "orderable d"
  proof -
    have old: "data_too_old c 999"
      using assms(3) by (simp add: data_too_old_def)
    from analyze_up_value [OF assms(1,2) o, of c clk] obtain iss where
      iss: "identify_issues c
              ((prelim clk d)\<lparr>status := Some (policy_status c ?p ?s 999)\<rparr>) = Inr iss"
      and r: "analyze_acc_status c clk d =
        Inr ((prelim clk d)\<lparr>status := Some (policy_status c ?p ?s 999), issues := Some iss\<rparr>)"
      by (auto simp: stale [OF u])
    have "Data_too_old 999 (max_data_age_minutes c) \<in> set iss"
      using identify_data_old [OF _ _ _ _ iss old] by (simp add: stale [OF u])
    then show ?thesis using r policy_old [OF old, of ?p ?s]
      by (simp add: issues_or_empty_def stale [OF u])
  qed
  show ?thesis
    using absent stale res analyze_up_raises [OF assms(1,2)] by simp
qed

text \<open>
  The healthy reading dated "yesterday" gets the age 999 and is \<^verbatim>\<open>DOWN\<close>; the healthy
  reading without a date gets the age 0.
\<close>

theorem unparsable_date_is_stale_witness:
  "truthy (dict_get misdated_reading ''success'' (JBool False)) \<and>
   py_eq (dict_get misdated_reading ''status'' JNull) 1 \<and>
   max_data_age_minutes (init_config None) < 999 \<and>
   date_unparsable clock_fresh (dict_get misdated_reading ''date'' JNull) \<and>
   orderable misdated_reading \<and>
   (\<exists>a. analyze_acc_status (init_config None) clock_fresh misdated_reading = Inr a \<and>
      data_age_minutes a = Some 999 \<and> status a = Some ''DOWN'') \<and>
   truthy (dict_get undated_reading ''success'' (JBool False)) \<and>
   py_eq (dict_get undated_reading ''status'' JNull) 1 \<and>
   \<not> truthy (dict_get undated_reading ''date'' JNull) \<and>
   data_age_of clock_fresh (dict_get undated_reading ''date'' JNull) = 0"
proof -
  have h1: "truthy (dict_get misdated_reading ''success'' (JBool False))"
    and h2: "py_eq (dict_get misdated_reading ''status'' JNull) 1"
    and h3: "max_data_age_minutes (init_config None) < 999"
    and u: "date_unparsable clock_fresh (dict_get misdated_reading ''date'' JNull)"
    and o: "orderable misdated_reading"
    by (simp_all add: sample_defs python_defs date_unparsable_def orderable_def)
  have k1: "truthy (dict_get undated_reading ''success'' (JBool False))"
    and k2: "py_eq (dict_get undated_reading ''status'' JNull) 1"
    and n: "\<not> truthy (dict_get undated_reading ''date'' JNull)"
    by (simp_all add: sample_defs python_defs)
  from unparsable_date_is_stale [OF h1 h2 h3, where clk = clock_fresh]
    unparsable_date_is_stale [OF k1 k2 h3, where clk = clock_fresh]
  show ?thesis using h1 h2 h3 u o k1 k2 n by auto
qed

text \<open>
  A reading without a date is not stale: the healthy reading without its \<^verbatim>\<open>date\<close> key
  has age 0, no issue, and is \<^verbatim>\<open>UP\<close> under the shipped thresholds, whatever the clock
  reads.
\<close>

theorem absent_date_counts_as_fresh_counterexample:
  "undated_reading ''date'' = None \<and>
   truthy (dict_get undated_reading ''success'' (JBool False)) \<and>
   py_eq (dict_get undated_reading ''status'' JNull) 1 \<and>
   map_sum id data_age_minutes
     (analyze_acc_status (init_config None) clock_late undated_reading) = Inr (Some 0) \<and>
   map_sum id issues
     (analyze_acc_status (init_config None) clock_late undated_reading) = Inr (Some []) \<and>
   map_sum id status
     (analyze_acc_status (init_config None) clock_late undated_reading) = Inr (Some ''UP'')"
  by (simp add: sample_defs classifier_defs python_defs)

section \<open>Properties of fetching\<close>

lemma fetch_failed_dict:
  assumes "fetch_failed (http_get w)"
  shows "dict_get (fetch_api_data w) ''success'' (JBool False) = JBool False"
    and "\<exists>msg. dict_get (fetch_api_data w) ''error'' (JStr ''API error'') = JStr msg"
  using assms
  by (auto simp: fetch_failed_def fetch_api_data_def create_api_error_def dict_get_def
      split: get_outcome.splits body.splits json.splits if_splits)

lemma fetch_succeeded_dict:
  assumes "\<not> fetch_failed (http_get w)"
  shows "dict_get (fetch_api_data w) ''success'' (JBool False) = JBool True"
  using assms
  by (auto simp: fetch_failed_def fetch_api_data_def dict_get_def
      split: get_outcome.splits body.splits json.splits if_splits)

text \<open>
  Claim C4, as the code has it. For every fetch failure (a timeout, a connection error,
  any other exception, a response that is not 200, a body that is no JSON or no JSON
  object), \<^verbatim>\<open>analyze_acc_status\<close> returns, without raising, the dictionary with status
  \<^verbatim>\<open>API_ERROR\<close>, the error message of the fetch under the key \<^verbatim>\<open>reason\<close>, the
  timestamp and the source \<^verbatim>\<open>api_error\<close>. It has no key \<^verbatim>\<open>issues\<close> and none of the
  keys of the quality checks.
\<close>

theorem fetch_failure_analysis:
  assumes "fetch_failed (http_get w)"
  shows "\<exists>msg. dict_get (fetch_api_data w) ''error'' (JStr ''API error'') = JStr msg \<and>
           analyze_acc_status c clk (fetch_api_data w) =
             Inr \<lparr> status = Some ''API_ERROR'', reason = Some (JStr msg),
                   timestamp = local_now clk, source = ''api_error'',
                   api_status = None, ping_ms = None, servers_count = None,
                   players_count = None, data_age_minutes = None, down_since = None,
                   api_response_time = None, issues = None \<rparr>"
proof -
  from fetch_failed_dict [OF assms] obtain msg where
    "dict_get (fetch_api_data w) ''error'' (JStr ''API error'') = JStr msg"
    and "\<not> truthy (dict_get (fetch_api_data w) ''success'' (JBool False))"
    by auto
  then show ?thesis using analyze_failure_value [of "fetch_api_data w" c clk] by simp
qed

text \<open>
  A request that times out is analysed with the reason "API timeout", an answer 503 with
  the reason "API HTTP 503 - Service Unavailable".
\<close>

theorem fetch_failure_analysis_witness:
  "fetch_failed (http_get world_timeout) \<and>
   analyze_acc_status (init_config None) clock_fresh (fetch_api_data world_timeout) =
     Inr \<lparr> status = Some ''API_ERROR'', reason = Some (JStr ''API timeout''),
           timestamp = ''01/01/2025 12:02:00'', source = ''api_error'',
           api_status = None, ping_ms = None, servers_count = None,
           players_count = None, data_age_minutes = None, down_since = None,
           api_response_time = None, issues = None \<rparr> \<and>
   fetch_failed (http_get world_unavailable) \<and>
   map_sum id reason
     (analyze_acc_status (init_config None) clock_fresh (fetch_api_data world_unavailable)) =
     Inr (Some (JStr ''API HTTP 503 - Service Unavailable''))"
proof -
  have h: "fetch_failed (http_get world_timeout)" "fetch_failed (http_get world_unavailable)"
    by (simp_all add: world_defs fetch_failed_def)
  have e: "dict_get (fetch_api_data world_timeout) ''error'' (JStr ''API error'') =
      JStr ''API timeout''"
    "dict_get (fetch_api_data world_unavailable) ''error'' (JStr ''API error'') =
      JStr ''API HTTP 503 - Service Unavailable''"
    by (simp_all add: world_defs fetch_api_data_def create_api_error_def dict_get_def
        str_int_def str_nat.simps)
  from fetch_failure_analysis [OF h(1), of "init_config None" clock_fresh]
    fetch_failure_analysis [OF h(2), of "init_config None" clock_fresh]
  show ?thesis using h e by (auto simp: clock_fresh_def)
qed

text \<open>
  The issues of the analysis of a timeout are not the one-element list of the reason: the key is
  absent, and \<^verbatim>\<open>analysis.get('issues', [])\<close> is the empty list.
\<close>

theorem fetch_failure_issues_counterexample:
  "fetch_failed (http_get world_timeout) \<and>
   map_sum id reason
     (analyze_acc_status (init_config None) clock_fresh (fetch_api_data world_timeout)) =
     Inr (Some (JStr ''API timeout'')) \<and>
   map_sum id issues
     (analyze_acc_status (init_config None) clock_fresh (fetch_api_data world_timeout)) =
     Inr None \<and>
   map_sum id (\<lambda>a. length (issues_or_empty a))
     (analyze_acc_status (init_config None) clock_fresh (fetch_api_data world_timeout)) =
     Inr 0"
  by (simp add: world_timeout_def fetch_failed_def fetch_api_data_def create_api_error_def
      analyze_acc_status_def dict_get_def issues_or_empty_def)

section \<open>Properties of the persisted state\<close>

text \<open>
  Claim C7. Saving an analysis to a metrics history appends it at the end and keeps the
  last 200 entries: the new history has \<open>min (n + 1) 200\<close> entries for a prior history of
  \<open>n\<close>, ends with the new analysis, is the prior history with the new analysis appended
  when \<open>n < 200\<close>, and is the prior history without its first entry, with the new
  analysis appended, when \<open>n = 200\<close>. With no history file the new history is the new
  analysis alone.
\<close>

theorem metrics_history_capped:
  "save_metrics_history a Missing Written = Contents [a] \<and>
   (\<exists>h'. save_metrics_history a (Contents h) Written = Contents h' \<and>
        h' = drop (length h + 1 - 200) (h @ [a]) \<and>
        length h' = min (length h + 1) 200 \<and>
        last h' = a \<and>
        (length h = 200 \<longrightarrow> h' = tl h @ [a]) \<and>
        (length h < 200 \<longrightarrow> h' = h @ [a]))"
proof -
  have "last (drop (length h + 1 - 200) (h @ [a])) = a"
    by (simp add: last_drop)
  moreover have "drop 1 (h @ [a]) = tl h @ [a]" if "length h = 200"
    using that by (cases h) simp_all
  ultimately show ?thesis
    by (auto simp: save_metrics_history_def Let_def)
qed

text \<open>
  Appending 200 to the history 0, ..., 199 gives 1, ..., 200; appending 3 to 0, 1, 2
  gives 0, 1, 2, 3.
\<close>

theorem metrics_history_capped_witness:
  "length [0..<200] = 200 \<and>
   save_metrics_history (200 :: nat) (Contents [0..<200]) Written =
     Contents ([1..<200] @ [200]) \<and>
   length [0..<3] < 200 \<and>
   save_metrics_history (3 :: nat) (Contents [0..<3]) Written = Contents [0, 1, 2, 3]"
proof -
  have l: "length [0..<200] = 200" "length [0..<3] < 200" by simp_all
  have t: "tl [0..<200] = [1..<200]" by (simp add: tl_upt)
  have u: "[0..<3] = [0, 1, 2]" by (simp add: upt_rec)
  from metrics_history_capped [of "200 :: nat" "[0..<200]"]
    metrics_history_capped [of "3 :: nat" "[0..<3]"]
  show ?thesis using l t u by auto
qed

section \<open>Properties of a run\<close>

lemma tuple_always_truthy: "tuple_truthy (significant_change l s f)"
  by (simp add: tuple_truthy_def tuple_len_def)

lemma send_true:
  "send_discord_notification c w a \<Longrightarrow>
     discord_webhook c \<noteq> None \<and> discord_webhook c \<noteq> Some [] \<and>
     http_post w = Post_response 204 \<and> (\<exists>e. create_discord_embed c a = Inr e)"
  by (auto simp: send_discord_notification_def
      split: option.splits if_splits sum.splits post_outcome.splits)

lemma run_cases:
  "(\<exists>e. run c w = aborted e w) \<or>
   (\<exists>a st. analyze_acc_status c (wall_clock w) (fetch_api_data w) = Inr a \<and>
      status a = Some st \<and>
      run c w = \<lparr> returned = Inr a, notified = True,
                  delivered = send_discord_notification c w a,
                  status_file_after =
                    (if send_discord_notification c w a
                     then save_status st (status_file w) (status_write w)
                     else status_file w),
                  metrics_file_after =
                    save_metrics_history a (metrics_file w) (metrics_write w) \<rparr>)"
  by (auto simp: run_def Let_def item_def tuple_always_truthy
      split: sum.splits option.splits)

text \<open>
  The dictionary of a fetch failure has no key \<^verbatim>\<open>api_status\<close>, which
  \<^verbatim>\<open>create_discord_embed\<close> reads: for a fetch failure the notification is attempted
  and never delivered.
\<close>

lemma embed_needs_api_status:
  "api_status a = None \<Longrightarrow> status a = Some st \<Longrightarrow>
     create_discord_embed c a = Inl (KeyError ''api_status'')"
  by (simp add: create_discord_embed_def and_then_def item_def)

lemma fetch_failure_never_delivered:
  assumes "fetch_failed (http_get w)"
  shows "notified (run c w) \<and> \<not> delivered (run c w) \<and>
         status_file_after (run c w) = status_file w"
proof -
  from fetch_failed_dict [OF assms] have
    f: "\<not> truthy (dict_get (fetch_api_data w) ''success'' (JBool False))"
    by simp
  let ?a = "\<lparr> status = Some ''API_ERROR'',
           reason = Some (dict_get (fetch_api_data w) ''error'' (JStr ''API error'')),
           timestamp = local_now (wall_clock w), source = ''api_error'',
           api_status = None, ping_ms = None, servers_count = None,
           players_count = None, data_age_minutes = None, down_since = None,
           api_response_time = None, issues = None \<rparr>"
  have a: "analyze_acc_status c (wall_clock w) (fetch_api_data w) = Inr ?a"
    using analyze_failure_value [OF f] .
  have e: "create_discord_embed c ?a = Inl (KeyError ''api_status'')"
    by (rule embed_needs_api_status) simp_all
  have s: "\<not> send_discord_notification c w ?a"
    using e by (simp add: send_discord_notification_def split: option.splits)
  show ?thesis
    using a s
    by (simp add: run_def Let_def item_def log_metrics_def and_then_def tuple_always_truthy)
qed

text \<open>
  Claim C3. A run whose notification is not delivered (no webhook configured, an
  exception while building or posting the message, or a response other than 204) leaves
  the status file as it was. The status file changes only in a run that called
  \<^verbatim>\<open>send_discord_notification\<close> and got \<^verbatim>\<open>True\<close>, and then by \<^verbatim>\<open>save_status\<close> of the
  new status.
\<close>

theorem failed_delivery_keeps_last_status:
  "(discord_webhook c = None \<or> discord_webhook c = Some [] \<or> http_post w \<noteq> Post_response 204
      \<longrightarrow> \<not> delivered (run c w)) \<and>
   (\<not> delivered (run c w) \<longrightarrow> status_file_after (run c w) = status_file w) \<and>
   (status_file_after (run c w) \<noteq> status_file w \<longrightarrow>
      notified (run c w) \<and> delivered (run c w) \<and>
      (\<exists>a st. returned (run c w) = Inr a \<and> status a = Some st \<and>
         status_file_after (run c w) = save_status st (status_file w) (status_write w)))"
proof -
  consider (abort) e where "run c w = aborted e w"
    | (ran) a st where "status a = Some st"
        "run c w = \<lparr> returned = Inr a, notified = True,
                  delivered = send_discord_notification c w a,
                  status_file_after =
                    (if send_discord_notification c w a
                     then save_status st (status_file w) (status_write w)
                     else status_file w),
                  metrics_file_after =
                    save_metrics_history a (metrics_file w) (metrics_write w) \<rparr>"
    using run_cases [of c w] by blast
  then show ?thesis
  proof cases
    case abort
    then show ?thesis by (simp add: aborted_def)
  next
    case ran
    then show ?thesis using send_true [of c w a] by auto
  qed
qed

text \<open>
  With \<^verbatim>\<open>DOWN\<close> in the status file and healthy servers, a webhook that answers 500
  leaves \<^verbatim>\<open>DOWN\<close> in the file, and a webhook that answers 204 puts \<^verbatim>\<open>UP\<close> there.
\<close>

theorem failed_delivery_keeps_last_status_witness:
  "http_post world_undelivered \<noteq> Post_response 204 \<and>
   map_sum id status (returned (run webhook_config world_undelivered)) = Inr (Some ''UP'') \<and>
   notified (run webhook_config world_undelivered) \<and>
   \<not> delivered (run webhook_config world_undelivered) \<and>
   status_file_after (run webhook_config world_undelivered) = Contents ''DOWN'' \<and>
   status_file world_recovered = Contents ''DOWN'' \<and>
   status_file_after (run webhook_config world_recovered) = Contents ''UP'' \<and>
   delivered (run webhook_config world_recovered)"
proof -
  have p: "http_post world_undelivered \<noteq> Post_response 204"
    by (simp add: world_defs)
  have f: "status_file world_undelivered = Contents ''DOWN''"
    "status_file world_recovered = Contents ''DOWN''"
    by (simp_all add: world_defs)
  have r: "map_sum id status (returned (run webhook_config world_undelivered)) = Inr (Some ''UP'')"
    "notified (run webhook_config world_undelivered)"
    "status_file_after (run webhook_config world_recovered) = Contents ''UP''"
    by (simp_all add: world_defs run_defs sample_defs classifier_defs python_defs)
  note t1 = failed_delivery_keeps_last_status [of webhook_config world_undelivered]
  note t2 = failed_delivery_keeps_last_status [of webhook_config world_recovered]
  from t1 p have nd: "\<not> delivered (run webhook_config world_undelivered)" by blast
  with t1 f have u: "status_file_after (run webhook_config world_undelivered) = Contents ''DOWN''"
    by simp
  from t2 r(3) f(2) have d: "delivered (run webhook_config world_recovered)" by simp
  show ?thesis using p r nd u d f by simp
qed

text \<open>
  Claim C2. The change detector is to notify exactly when there is no prior status, the
  status changed, the status is \<^verbatim>\<open>DOWN\<close> or \<^verbatim>\<open>API_ERROR\<close>, or the force flag is set;
  with \<^verbatim>\<open>UP\<close> before and \<^verbatim>\<open>UP\<close> now and no force flag it is not to notify. In the
  code, \<^verbatim>\<open>significant_change\<close> is a tuple and is always true. In the run that finds
  healthy servers with \<^verbatim>\<open>UP\<close> in the status file and the force flag unset, both
  components of the tuple are false and the rule says not to notify, yet the run calls
  \<^verbatim>\<open>send_discord_notification\<close> and the message is delivered.
\<close>

theorem unchanged_up_still_notifies:
  "significant_change (Some ''UP'') ''UP'' None = (False, False) \<and>
   \<not> notify_rule (Some ''UP'') ''UP'' False \<and>
   get_last_status (status_file world_up) = Some ''UP'' \<and>
   force_notification world_up = None \<and>
   map_sum id status (returned (run webhook_config world_up)) = Inr (Some ''UP'') \<and>
   notified (run webhook_config world_up) \<and>
   delivered (run webhook_config world_up)"
  by (simp add: notify_rule_def world_defs run_defs sample_defs classifier_defs python_defs)

text \<open>In particular the run notifies where the rule does not.\<close>

theorem unchanged_up_still_notifies_witness:
  "notified (run webhook_config world_up) \<and> \<not> notify_rule (Some ''UP'') ''UP'' False"
  using unchanged_up_still_notifies by blast

end
